theory Spec2Isabelle
  imports Main "HOL-Library.Word"
begin

section \<open>WinRoute: the exported adapter \<open>WinRoute_EnsureTopMetric\<close>\<close>

text \<open>
  The unit under verification is \<^verbatim>\<open>src/windows/winroute/src/winroute/winroute.cpp\<close>:
  \<^verbatim>\<open>
  int32_t WinRoute_EnsureTopMetric(const wchar_t *deviceAlias,
                                   WinRouteErrorSink errorSink,
                                   void* errorSinkContext)
  {
    try
    {
      NetworkInterfaces interfaces;
      bool metrics_set = interfaces.SetTopMetricForInterfaceByAlias(deviceAlias);
      return metrics_set ? 1 : 0;
    }
    catch (std::exception &err)
    {
      if (nullptr != errorSink)
      {
        errorSink(err.what(), errorSinkContext);
      }
      return -1;
    }
    catch (...)
    {
      return -1;
    }
  }
  \<close>
\<close>

subsection \<open>Data\<close>

type_synonym wchar_t = "16 word"
type_synonym int32_t = "32 word"

text \<open>
  A C pointer is either \<open>nullptr\<close> or refers to something. The adapter compares only
  \<open>errorSink\<close> against \<open>nullptr\<close>; \<open>deviceAlias\<close> is handed to the collaborator as it is.
\<close>

datatype 'a pointer = nullptr | Ptr 'a

text \<open>
  A thrown C++ object, as far as the two handlers of the adapter tell them apart: an
  object of \<^verbatim>\<open>std::exception\<close> or of a class derived from it, with the text its
  \<^verbatim>\<open>what()\<close> returns, is caught by the first handler; any other object only by
  \<^verbatim>\<open>catch (...)\<close>.
\<close>

datatype exception = std_exception string | non_std_exception

text \<open>
  The collaborator class \<^verbatim>\<open>NetworkInterfaces\<close> (declared in
  \<^verbatim>\<open>NetworkInterfaces.h\<close>) is a parameter of the model: its constructor and its
  member \<^verbatim>\<open>SetTopMetricForInterfaceByAlias\<close> are arbitrary functions that read and
  update the system state \<open>'os\<close> (the interface table of the operating system) and either
  return or throw. \<open>'h\<close> is the constructed object; its destructor, which runs when
  the \<^verbatim>\<open>try\<close> block is left, does not throw (the default of the language).
\<close>

record ('h, 'os) NetworkInterfaces =
  constructor :: "'os \<Rightarrow> (exception + 'h) \<times> 'os"
  SetTopMetricForInterfaceByAlias ::
    "'h \<Rightarrow> wchar_t list pointer \<Rightarrow> 'os \<Rightarrow> (exception + bool) \<times> 'os"

text \<open>
  \<^verbatim>\<open>WinRouteErrorSink\<close> is a callback of the caller, reached through the C interface
  of the library. One invocation is an observable event: which function pointer was
  called, with which message and which context. What the callback itself does with
  them belongs to the caller; being a C function, it returns to the adapter.
\<close>

record ('f, 'c) sink_call =
  callee :: "'f pointer"
  message :: string
  ctx :: 'c

text \<open>
  The state a call runs in: the system state the collaborator works on and the
  sequence of sink invocations made so far.
\<close>

record ('os, 'f, 'c) world =
  os :: 'os
  sink_log :: "('f, 'c) sink_call list"

subsection \<open>The adapter\<close>

text \<open>
  The \<^verbatim>\<open>try\<close> block: construct the handle, call the collaborator, map the boolean.
  An exception of either step leaves the block (\<open>Inl\<close>).
\<close>

definition try_block ::
  "('h, 'os) NetworkInterfaces \<Rightarrow> wchar_t list pointer \<Rightarrow> 'os \<Rightarrow> (exception + int32_t) \<times> 'os"
where
  "try_block NI deviceAlias s =
     (case constructor NI s of
        (Inl err, s1) \<Rightarrow> (Inl err, s1)
      | (Inr interfaces, s1) \<Rightarrow>
          (case SetTopMetricForInterfaceByAlias NI interfaces deviceAlias s1 of
             (Inl err, s2) \<Rightarrow> (Inl err, s2)
           | (Inr metrics_set, s2) \<Rightarrow> (Inr (if metrics_set then 1 else 0), s2)))"

text \<open>
  The function with its two handlers. The result is \<open>Inr status\<close> when the function
  returns and \<open>Inl e\<close> when \<open>e\<close> leaves it.
\<close>

definition WinRoute_EnsureTopMetric ::
  "('h, 'os) NetworkInterfaces \<Rightarrow> wchar_t list pointer \<Rightarrow> 'f pointer \<Rightarrow> 'c \<Rightarrow>
   ('os, 'f, 'c) world \<Rightarrow> (exception + int32_t) \<times> ('os, 'f, 'c) world"
where
  "WinRoute_EnsureTopMetric NI deviceAlias errorSink errorSinkContext w =
     (case try_block NI deviceAlias (os w) of
        (Inr status, s) \<Rightarrow> (Inr status, w\<lparr>os := s\<rparr>)
      | (Inl (std_exception msg), s) \<Rightarrow>
          (Inr (- 1),
           if nullptr \<noteq> errorSink
           then w\<lparr>os := s,
                  sink_log := sink_log w @
                    [\<lparr>callee = errorSink, message = msg, ctx = errorSinkContext\<rparr>]\<rparr>
           else w\<lparr>os := s\<rparr>)
      | (Inl non_std_exception, s) \<Rightarrow> (Inr (- 1), w\<lparr>os := s\<rparr>))"

text \<open>The sink invocations a call adds to those made before it.\<close>

definition new_sink_calls ::
  "('os, 'f, 'c) world \<Rightarrow> ('os, 'f, 'c) world \<Rightarrow> ('f, 'c) sink_call list"
where
  "new_sink_calls w w' = drop (length (sink_log w)) (sink_log w')"

subsection \<open>What the collaborator does in one call\<close>

text \<open>
  The collaborator's part of a call, construction first and the member call after it:
  it returns \<open>true\<close>, returns \<open>false\<close>, or one of the two steps throws.
\<close>

definition collaborator_run ::
  "('h, 'os) NetworkInterfaces \<Rightarrow> wchar_t list pointer \<Rightarrow> 'os \<Rightarrow> exception + bool"
where
  "collaborator_run NI deviceAlias s =
     (case constructor NI s of
        (Inl err, s1) \<Rightarrow> Inl err
      | (Inr interfaces, s1) \<Rightarrow> fst (SetTopMetricForInterfaceByAlias NI interfaces deviceAlias s1))"

datatype outcome = returned_true | returned_false | typed_failure | untyped_failure

fun outcome_of :: "exception + bool \<Rightarrow> outcome" where
  "outcome_of (Inr True) = returned_true"
| "outcome_of (Inr False) = returned_false"
| "outcome_of (Inl (std_exception msg)) = typed_failure"
| "outcome_of (Inl non_std_exception) = untyped_failure"

subsection \<open>Collaborators to run the adapter on\<close>

text \<open>
  Every theorem below is about an arbitrary collaborator. The two of this subsection
  serve to run the adapter on concrete inputs, in the closed instances that follow the
  theorems. The first works on a concrete system state, a list of interfaces with their
  alias and metric. Construction fails with an untyped exception when the table is
  empty; the member throws \<^verbatim>\<open>std::exception\<close> when it is given no alias, returns
  \<open>false\<close> when no interface has the alias or the interface already has metric 1, and
  otherwise sets the metric to 1 and returns \<open>true\<close>.
\<close>

type_synonym iftable = "(wchar_t list \<times> nat) list"

fun set_top :: "wchar_t list \<Rightarrow> iftable \<Rightarrow> bool \<times> iftable" where
  "set_top a [] = (False, [])"
| "set_top a ((b, m) # rest) =
     (if a = b then (m \<noteq> 1, (b, 1) # rest)
      else (case set_top a rest of (r, rest') \<Rightarrow> (r, (b, m) # rest')))"

definition table_interfaces :: "(unit, iftable) NetworkInterfaces" where
  "table_interfaces =
     \<lparr>constructor = (\<lambda>s. if s = [] then (Inl non_std_exception, s) else (Inr (), s)),
      SetTopMetricForInterfaceByAlias = (\<lambda>h a s.
        case a of
          nullptr \<Rightarrow> (Inl (std_exception ''Invalid alias''), s)
        | Ptr name \<Rightarrow> (case set_top name s of (r, s') \<Rightarrow> (Inr r, s')))\<rparr>"

text \<open>A collaborator whose constructor throws the given exception.\<close>

definition failing_constructor :: "exception \<Rightarrow> (unit, iftable) NetworkInterfaces" where
  "failing_constructor e =
     \<lparr>constructor = (\<lambda>s. (Inl e, s)),
      SetTopMetricForInterfaceByAlias = (\<lambda>h a s. (Inr True, s))\<rparr>"

definition tun0 :: "wchar_t list" where
  "tun0 = [116, 117, 110, 48]"

definition eth0 :: "wchar_t list" where
  "eth0 = [101, 116, 104, 48]"

definition w0 :: "(iftable, nat, nat) world" where
  "w0 = \<lparr>os = [(eth0, 5), (tun0, 25)], sink_log = []\<rparr>"

section \<open>Properties\<close>

subsection \<open>The status values\<close>

lemma status_values:
  "sint (1 :: int32_t) = 1" "sint (0 :: int32_t) = 0" "sint (- 1 :: int32_t) = - 1"
  by simp_all

lemma status_distinct:
  "(1 :: int32_t) \<noteq> 0" "(1 :: int32_t) \<noteq> - 1" "(0 :: int32_t) \<noteq> - 1"
  by simp_all

subsection \<open>The try block follows the collaborator\<close>

lemma try_block_run:
  "fst (try_block NI deviceAlias s) =
     (case collaborator_run NI deviceAlias s of
        Inl err \<Rightarrow> Inl err
      | Inr metrics_set \<Rightarrow> Inr (if metrics_set then 1 else 0))"
  by (simp add: try_block_def collaborator_run_def split: prod.splits sum.splits)

text \<open>The adapter, case by case on what the try block did.\<close>

lemma adapter_returned:
  "try_block NI deviceAlias (os w) = (Inr status, s) \<Longrightarrow>
   WinRoute_EnsureTopMetric NI deviceAlias errorSink errorSinkContext w =
     (Inr status, w\<lparr>os := s\<rparr>)"
  by (simp add: WinRoute_EnsureTopMetric_def)

lemma adapter_typed:
  "try_block NI deviceAlias (os w) = (Inl (std_exception msg), s) \<Longrightarrow>
   WinRoute_EnsureTopMetric NI deviceAlias errorSink errorSinkContext w =
     (Inr (- 1),
      if nullptr \<noteq> errorSink
      then w\<lparr>os := s,
             sink_log := sink_log w @
               [\<lparr>callee = errorSink, message = msg, ctx = errorSinkContext\<rparr>]\<rparr>
      else w\<lparr>os := s\<rparr>)"
  by (simp add: WinRoute_EnsureTopMetric_def)

lemma adapter_untyped:
  "try_block NI deviceAlias (os w) = (Inl non_std_exception, s) \<Longrightarrow>
   WinRoute_EnsureTopMetric NI deviceAlias errorSink errorSinkContext w =
     (Inr (- 1), w\<lparr>os := s\<rparr>)"
  by (simp add: WinRoute_EnsureTopMetric_def)

subsection \<open>Status and sink log in terms of the collaborator's run\<close>

lemma adapter_status:
  "fst (WinRoute_EnsureTopMetric NI deviceAlias errorSink errorSinkContext w) =
     Inr (case collaborator_run NI deviceAlias (os w) of
            Inr metrics_set \<Rightarrow> if metrics_set then 1 else 0
          | Inl err \<Rightarrow> - 1)"
  by (simp add: WinRoute_EnsureTopMetric_def try_block_def collaborator_run_def
      split: prod.splits sum.splits exception.splits)

lemma adapter_sink_log:
  "sink_log (snd (WinRoute_EnsureTopMetric NI deviceAlias errorSink errorSinkContext w)) =
     (case collaborator_run NI deviceAlias (os w) of
        Inr metrics_set \<Rightarrow> sink_log w
      | Inl (std_exception msg) \<Rightarrow>
          if nullptr \<noteq> errorSink
          then sink_log w @ [\<lparr>callee = errorSink, message = msg, ctx = errorSinkContext\<rparr>]
          else sink_log w
      | Inl non_std_exception \<Rightarrow> sink_log w)"
  by (simp add: WinRoute_EnsureTopMetric_def try_block_def collaborator_run_def
      split: prod.splits sum.splits exception.splits)

lemma run_member:
  "constructor NI s = (Inr h, s1) \<Longrightarrow>
   collaborator_run NI deviceAlias s =
     fst (SetTopMetricForInterfaceByAlias NI h deviceAlias s1)"
  by (simp add: collaborator_run_def)

lemma run_constructor:
  "constructor NI s = (Inl e, s1) \<Longrightarrow> collaborator_run NI deviceAlias s = Inl e"
  by (simp add: collaborator_run_def)

text \<open>A call only appends to the log: the earlier invocations stay as they were.\<close>

lemma sink_log_extended:
  "sink_log (snd (WinRoute_EnsureTopMetric NI deviceAlias errorSink errorSinkContext w)) =
     sink_log w @
     new_sink_calls w (snd (WinRoute_EnsureTopMetric NI deviceAlias errorSink errorSinkContext w))"
  by (simp add: new_sink_calls_def adapter_sink_log split: sum.splits exception.splits)

lemma new_sink_calls_run:
  "new_sink_calls w (snd (WinRoute_EnsureTopMetric NI deviceAlias errorSink errorSinkContext w)) =
     (case collaborator_run NI deviceAlias (os w) of
        Inr metrics_set \<Rightarrow> []
      | Inl (std_exception msg) \<Rightarrow>
          if nullptr \<noteq> errorSink
          then [\<lparr>callee = errorSink, message = msg, ctx = errorSinkContext\<rparr>]
          else []
      | Inl non_std_exception \<Rightarrow> [])"
  by (simp add: new_sink_calls_def adapter_sink_log split: sum.splits exception.splits)

lemma status_of_outcome:
  "fst (WinRoute_EnsureTopMetric NI deviceAlias errorSink errorSinkContext w) =
     Inr (case outcome_of (collaborator_run NI deviceAlias (os w)) of
            returned_true \<Rightarrow> 1
          | returned_false \<Rightarrow> 0
          | typed_failure \<Rightarrow> - 1
          | untyped_failure \<Rightarrow> - 1)"
  by (cases "collaborator_run NI deviceAlias (os w)" rule: outcome_of.cases)
    (simp_all add: adapter_status)

text \<open>The runs of the sample collaborators used below.\<close>

lemma table_constructor_w0: "constructor table_interfaces (os w0) = (Inr (), os w0)"
  by (simp add: table_interfaces_def w0_def)

lemma table_run_null_alias:
  "collaborator_run table_interfaces nullptr (os w0) = Inl (std_exception ''Invalid alias'')"
  by (simp add: collaborator_run_def table_interfaces_def w0_def)

lemma table_run_empty:
  "collaborator_run table_interfaces (Ptr tun0) (os (w0\<lparr>os := []\<rparr>)) = Inl non_std_exception"
  by (simp add: collaborator_run_def table_interfaces_def)

lemma failing_constructor_run:
  "collaborator_run (failing_constructor e) deviceAlias s = Inl e"
  by (simp add: collaborator_run_def failing_constructor_def)

lemma table_run_tun0:
  "collaborator_run table_interfaces (Ptr tun0) (os w0) = Inr True"
  by (simp add: collaborator_run_def table_interfaces_def w0_def tun0_def eth0_def)

subsection \<open>The claims\<close>

text \<open>
  C1. For every alias and every behaviour of the collaborator, raised failures of
  either kind included, \<open>WinRoute_EnsureTopMetric\<close> returns (the result is \<open>Inr\<close>, no
  exception leaves the function), and the status it returns is 1, 0 or -1.
\<close>

theorem EnsureTopMetric_total_catch:
  "\<exists>status w'.
     WinRoute_EnsureTopMetric NI deviceAlias errorSink errorSinkContext w = (Inr status, w') \<and>
     (status = 1 \<or> status = 0 \<or> status = - 1)"
proof -
  obtain r w' where
    eq: "WinRoute_EnsureTopMetric NI deviceAlias errorSink errorSinkContext w = (r, w')"
    by (cases "WinRoute_EnsureTopMetric NI deviceAlias errorSink errorSinkContext w")
  have "r = Inr (case collaborator_run NI deviceAlias (os w) of
                   Inr metrics_set \<Rightarrow> if metrics_set then 1 else 0
                 | Inl err \<Rightarrow> - 1)"
    using adapter_status [of NI deviceAlias errorSink errorSinkContext w] eq by simp
  then show ?thesis
    using eq by (auto split: sum.splits)
qed

theorem EnsureTopMetric_total_catch_witness:
  "\<exists>status w'.
     WinRoute_EnsureTopMetric table_interfaces nullptr (Ptr (7 :: nat)) (99 :: nat) w0 =
       (Inr status, w') \<and>
     (status = 1 \<or> status = 0 \<or> status = - 1)"
  using EnsureTopMetric_total_catch [of table_interfaces nullptr "Ptr 7" 99 w0] .

text \<open>
  C2. When the handle is constructed and \<open>SetTopMetricForInterfaceByAlias\<close> returns
  \<open>true\<close> for the alias, \<open>WinRoute_EnsureTopMetric\<close> returns 1 and the error sink is not
  invoked: the log of sink invocations is the one before the call.
\<close>

theorem EnsureTopMetric_success:
  assumes "constructor NI (os w) = (Inr h, s1)"
    and "SetTopMetricForInterfaceByAlias NI h deviceAlias s1 = (Inr True, s2)"
  shows "fst (WinRoute_EnsureTopMetric NI deviceAlias errorSink errorSinkContext w) = Inr 1 \<and>
         sink_log (snd (WinRoute_EnsureTopMetric NI deviceAlias errorSink errorSinkContext w)) =
           sink_log w"
proof -
  have "collaborator_run NI deviceAlias (os w) = Inr True"
    using assms by (simp add: run_member)
  then show ?thesis
    by (simp add: adapter_status adapter_sink_log)
qed

theorem EnsureTopMetric_success_witness:
  "constructor table_interfaces (os w0) = (Inr (), os w0) \<and>
   SetTopMetricForInterfaceByAlias table_interfaces () (Ptr tun0) (os w0) =
     (Inr True, [(eth0, 5), (tun0, 1)]) \<and>
   fst (WinRoute_EnsureTopMetric table_interfaces (Ptr tun0) (Ptr (7 :: nat)) (99 :: nat) w0) =
     Inr 1 \<and>
   sink_log (snd (WinRoute_EnsureTopMetric table_interfaces (Ptr tun0) (Ptr (7 :: nat)) (99 :: nat) w0)) =
     sink_log w0"
proof -
  have c: "constructor table_interfaces (os w0) = (Inr (), os w0)"
    by (rule table_constructor_w0)
  have m: "SetTopMetricForInterfaceByAlias table_interfaces () (Ptr tun0) (os w0) =
             (Inr True, [(eth0, 5), (tun0, 1)])"
    by (simp add: table_interfaces_def w0_def tun0_def eth0_def)
  show ?thesis
    using c m EnsureTopMetric_success [OF c m, of "Ptr 7" 99] by simp
qed

text \<open>
  C3. When the handle is constructed and \<open>SetTopMetricForInterfaceByAlias\<close> returns
  \<open>false\<close> without throwing (no interface has the alias, for one),
  \<open>WinRoute_EnsureTopMetric\<close> returns 0 and the error sink is not invoked.
\<close>

theorem EnsureTopMetric_not_applied:
  assumes "constructor NI (os w) = (Inr h, s1)"
    and "SetTopMetricForInterfaceByAlias NI h deviceAlias s1 = (Inr False, s2)"
  shows "fst (WinRoute_EnsureTopMetric NI deviceAlias errorSink errorSinkContext w) = Inr 0 \<and>
         sink_log (snd (WinRoute_EnsureTopMetric NI deviceAlias errorSink errorSinkContext w)) =
           sink_log w"
proof -
  have "collaborator_run NI deviceAlias (os w) = Inr False"
    using assms by (simp add: run_member)
  then show ?thesis
    by (simp add: adapter_status adapter_sink_log)
qed

theorem EnsureTopMetric_not_applied_witness:
  "constructor table_interfaces (os w0) = (Inr (), os w0) \<and>
   SetTopMetricForInterfaceByAlias table_interfaces () (Ptr [119, 103, 48]) (os w0) =
     (Inr False, os w0) \<and>
   fst (WinRoute_EnsureTopMetric table_interfaces (Ptr [119, 103, 48]) (Ptr (7 :: nat)) (99 :: nat) w0) =
     Inr 0 \<and>
   sink_log (snd (WinRoute_EnsureTopMetric table_interfaces (Ptr [119, 103, 48]) (Ptr (7 :: nat)) (99 :: nat) w0)) =
     sink_log w0"
proof -
  have c: "constructor table_interfaces (os w0) = (Inr (), os w0)"
    by (rule table_constructor_w0)
  have m: "SetTopMetricForInterfaceByAlias table_interfaces () (Ptr [119, 103, 48]) (os w0) =
             (Inr False, os w0)"
    by (simp add: table_interfaces_def w0_def tun0_def eth0_def)
  show ?thesis
    using c m EnsureTopMetric_not_applied [OF c m, of "Ptr 7" 99] by simp
qed



text \<open>
  C5. When the collaborator throws anything that is not a \<^verbatim>\<open>std::exception\<close>,
  \<open>WinRoute_EnsureTopMetric\<close> returns -1 and the error sink is not invoked, whether or
  not one was supplied: the log of sink invocations is the one before the call.
\<close>

theorem EnsureTopMetric_untyped_failure:
  assumes "collaborator_run NI deviceAlias (os w) = Inl non_std_exception"
  shows "fst (WinRoute_EnsureTopMetric NI deviceAlias errorSink errorSinkContext w) = Inr (- 1) \<and>
         sink_log (snd (WinRoute_EnsureTopMetric NI deviceAlias errorSink errorSinkContext w)) =
           sink_log w"
  using assms by (simp add: adapter_status adapter_sink_log)

theorem EnsureTopMetric_untyped_failure_witness:
  "collaborator_run table_interfaces (Ptr tun0) (os (w0\<lparr>os := []\<rparr>)) = Inl non_std_exception \<and>
   fst (WinRoute_EnsureTopMetric table_interfaces (Ptr tun0) (Ptr (7 :: nat)) (99 :: nat)
          (w0\<lparr>os := []\<rparr>)) = Inr (- 1) \<and>
   sink_log (snd (WinRoute_EnsureTopMetric table_interfaces (Ptr tun0) (Ptr (7 :: nat)) (99 :: nat)
                    (w0\<lparr>os := []\<rparr>))) = sink_log (w0\<lparr>os := []\<rparr>)"
proof -
  have r: "collaborator_run table_interfaces (Ptr tun0) (os (w0\<lparr>os := []\<rparr>)) =
             Inl non_std_exception"
    by (rule table_run_empty)
  show ?thesis
    using r EnsureTopMetric_untyped_failure [OF r, of "Ptr 7" 99] by simp
qed

text \<open>
  C6. When the error sink argument is \<open>nullptr\<close> and the collaborator throws, whatever
  it throws, \<open>WinRoute_EnsureTopMetric\<close> returns -1 and makes no sink invocation: the
  call through the null pointer is not attempted.
\<close>

theorem EnsureTopMetric_null_sink:
  assumes "collaborator_run NI deviceAlias (os w) = Inl e"
  shows "fst (WinRoute_EnsureTopMetric NI deviceAlias nullptr errorSinkContext w) = Inr (- 1) \<and>
         sink_log (snd (WinRoute_EnsureTopMetric NI deviceAlias nullptr errorSinkContext w)) =
           sink_log w"
  using assms by (cases e) (simp_all add: adapter_status adapter_sink_log)

theorem EnsureTopMetric_null_sink_witness:
  "collaborator_run table_interfaces nullptr (os w0) = Inl (std_exception ''Invalid alias'') \<and>
   fst (WinRoute_EnsureTopMetric table_interfaces nullptr (nullptr :: nat pointer) (99 :: nat) w0) =
     Inr (- 1) \<and>
   sink_log (snd (WinRoute_EnsureTopMetric table_interfaces nullptr (nullptr :: nat pointer)
                    (99 :: nat) w0)) = sink_log w0 \<and>
   collaborator_run table_interfaces (Ptr tun0) (os (w0\<lparr>os := []\<rparr>)) = Inl non_std_exception \<and>
   fst (WinRoute_EnsureTopMetric table_interfaces (Ptr tun0) (nullptr :: nat pointer) (99 :: nat)
          (w0\<lparr>os := []\<rparr>)) = Inr (- 1) \<and>
   sink_log (snd (WinRoute_EnsureTopMetric table_interfaces (Ptr tun0) (nullptr :: nat pointer)
                    (99 :: nat) (w0\<lparr>os := []\<rparr>))) = sink_log (w0\<lparr>os := []\<rparr>)"
proof -
  have r1: "collaborator_run table_interfaces nullptr (os w0) =
              Inl (std_exception ''Invalid alias'')"
    by (rule table_run_null_alias)
  have r2: "collaborator_run table_interfaces (Ptr tun0) (os (w0\<lparr>os := []\<rparr>)) =
              Inl non_std_exception"
    by (rule table_run_empty)
  have a1: "fst (WinRoute_EnsureTopMetric table_interfaces nullptr (nullptr :: nat pointer)
                   (99 :: nat) w0) = Inr (- 1) \<and>
            sink_log (snd (WinRoute_EnsureTopMetric table_interfaces nullptr (nullptr :: nat pointer)
                             (99 :: nat) w0)) = sink_log w0"
    by (rule EnsureTopMetric_null_sink [OF r1])
  have a2: "fst (WinRoute_EnsureTopMetric table_interfaces (Ptr tun0) (nullptr :: nat pointer)
                   (99 :: nat) (w0\<lparr>os := []\<rparr>)) = Inr (- 1) \<and>
            sink_log (snd (WinRoute_EnsureTopMetric table_interfaces (Ptr tun0)
                             (nullptr :: nat pointer) (99 :: nat) (w0\<lparr>os := []\<rparr>))) =
              sink_log (w0\<lparr>os := []\<rparr>)"
    by (rule EnsureTopMetric_null_sink [OF r2])
  show ?thesis
    using r1 r2 a1 a2 by simp
qed

text \<open>
  C7. In every call the error sink is invoked at most once, and within the call: the
  log on return is the log before the call followed by the invocations of this call,
  of which there is at most one. An invocation happens only in a call that returns -1;
  a call that returns 1 or 0 makes none.
\<close>

theorem EnsureTopMetric_sink_at_most_once:
  "sink_log (snd (WinRoute_EnsureTopMetric NI deviceAlias errorSink errorSinkContext w)) =
     sink_log w @
     new_sink_calls w (snd (WinRoute_EnsureTopMetric NI deviceAlias errorSink errorSinkContext w)) \<and>
   length (new_sink_calls w
     (snd (WinRoute_EnsureTopMetric NI deviceAlias errorSink errorSinkContext w))) \<le> 1 \<and>
   (new_sink_calls w
      (snd (WinRoute_EnsureTopMetric NI deviceAlias errorSink errorSinkContext w)) \<noteq> [] \<longrightarrow>
    fst (WinRoute_EnsureTopMetric NI deviceAlias errorSink errorSinkContext w) = Inr (- 1)) \<and>
   (fst (WinRoute_EnsureTopMetric NI deviceAlias errorSink errorSinkContext w) = Inr 1 \<or>
    fst (WinRoute_EnsureTopMetric NI deviceAlias errorSink errorSinkContext w) = Inr 0 \<longrightarrow>
    new_sink_calls w
      (snd (WinRoute_EnsureTopMetric NI deviceAlias errorSink errorSinkContext w)) = [])"
proof (rule conjI [OF sink_log_extended])
  show "length (new_sink_calls w
          (snd (WinRoute_EnsureTopMetric NI deviceAlias errorSink errorSinkContext w))) \<le> 1 \<and>
        (new_sink_calls w
           (snd (WinRoute_EnsureTopMetric NI deviceAlias errorSink errorSinkContext w)) \<noteq> [] \<longrightarrow>
         fst (WinRoute_EnsureTopMetric NI deviceAlias errorSink errorSinkContext w) = Inr (- 1)) \<and>
        (fst (WinRoute_EnsureTopMetric NI deviceAlias errorSink errorSinkContext w) = Inr 1 \<or>
         fst (WinRoute_EnsureTopMetric NI deviceAlias errorSink errorSinkContext w) = Inr 0 \<longrightarrow>
         new_sink_calls w
           (snd (WinRoute_EnsureTopMetric NI deviceAlias errorSink errorSinkContext w)) = [])"
  proof (cases "collaborator_run NI deviceAlias (os w)")
    case (Inl e)
    then show ?thesis
      by (cases e) (simp_all add: new_sink_calls_run adapter_status)
  next
    case (Inr metrics_set)
    then show ?thesis
      by (simp add: new_sink_calls_run adapter_status)
  qed
qed

theorem EnsureTopMetric_sink_at_most_once_witness:
  "new_sink_calls w0
     (snd (WinRoute_EnsureTopMetric table_interfaces nullptr (Ptr (7 :: nat)) (99 :: nat) w0)) \<noteq> [] \<and>
   length (new_sink_calls w0
     (snd (WinRoute_EnsureTopMetric table_interfaces nullptr (Ptr (7 :: nat)) (99 :: nat) w0))) \<le> 1 \<and>
   fst (WinRoute_EnsureTopMetric table_interfaces nullptr (Ptr (7 :: nat)) (99 :: nat) w0) =
     Inr (- 1) \<and>
   fst (WinRoute_EnsureTopMetric table_interfaces (Ptr tun0) (Ptr (7 :: nat)) (99 :: nat) w0) =
     Inr 1 \<and>
   new_sink_calls w0
     (snd (WinRoute_EnsureTopMetric table_interfaces (Ptr tun0) (Ptr (7 :: nat)) (99 :: nat) w0)) = []"
proof -
  have invoked: "new_sink_calls w0
      (snd (WinRoute_EnsureTopMetric table_interfaces nullptr (Ptr (7 :: nat)) (99 :: nat) w0)) \<noteq> []"
    by (simp add: new_sink_calls_run table_run_null_alias)
  have returned: "fst (WinRoute_EnsureTopMetric table_interfaces (Ptr tun0) (Ptr (7 :: nat))
      (99 :: nat) w0) = Inr 1"
    by (simp add: adapter_status table_run_tun0)
  note failing = EnsureTopMetric_sink_at_most_once [of table_interfaces nullptr "Ptr 7" 99 w0]
  note applied = EnsureTopMetric_sink_at_most_once [of table_interfaces "Ptr tun0" "Ptr 7" 99 w0]
  from failing have once: "length (new_sink_calls w0
      (snd (WinRoute_EnsureTopMetric table_interfaces nullptr (Ptr (7 :: nat)) (99 :: nat) w0))) \<le> 1"
    by blast
  from failing invoked have failed: "fst (WinRoute_EnsureTopMetric table_interfaces nullptr
      (Ptr (7 :: nat)) (99 :: nat) w0) = Inr (- 1)"
    by blast
  from applied returned have silent: "new_sink_calls w0
      (snd (WinRoute_EnsureTopMetric table_interfaces (Ptr tun0) (Ptr (7 :: nat)) (99 :: nat) w0)) = []"
    by blast
  from invoked once failed returned silent show ?thesis
    by blast
qed

text \<open>
  C8. Every sink invocation a call makes is an invocation of the supplied
  \<open>errorSink\<close>, and the context it is given is the \<open>errorSinkContext\<close> of the caller,
  unchanged.
\<close>

theorem EnsureTopMetric_context_passed:
  "\<forall>call \<in> set (new_sink_calls w
       (snd (WinRoute_EnsureTopMetric NI deviceAlias errorSink errorSinkContext w))).
     callee call = errorSink \<and> ctx call = errorSinkContext"
  by (auto simp add: new_sink_calls_run split: sum.splits exception.splits)

theorem EnsureTopMetric_context_passed_witness:
  "new_sink_calls w0
     (snd (WinRoute_EnsureTopMetric table_interfaces nullptr (Ptr (7 :: nat)) (99 :: nat) w0)) \<noteq> [] \<and>
   callee (hd (new_sink_calls w0
     (snd (WinRoute_EnsureTopMetric table_interfaces nullptr (Ptr (7 :: nat)) (99 :: nat) w0)))) =
     Ptr 7 \<and>
   ctx (hd (new_sink_calls w0
     (snd (WinRoute_EnsureTopMetric table_interfaces nullptr (Ptr (7 :: nat)) (99 :: nat) w0)))) =
     99"
proof -
  have invoked: "new_sink_calls w0
      (snd (WinRoute_EnsureTopMetric table_interfaces nullptr (Ptr (7 :: nat)) (99 :: nat) w0)) \<noteq> []"
    by (simp add: new_sink_calls_run table_run_null_alias)
  then have "hd (new_sink_calls w0
      (snd (WinRoute_EnsureTopMetric table_interfaces nullptr (Ptr (7 :: nat)) (99 :: nat) w0)))
    \<in> set (new_sink_calls w0
      (snd (WinRoute_EnsureTopMetric table_interfaces nullptr (Ptr (7 :: nat)) (99 :: nat) w0)))"
    by (rule hd_in_set)
  then show ?thesis
    using invoked
      EnsureTopMetric_context_passed [of w0 table_interfaces nullptr "Ptr 7" 99]
    by blast
qed

text \<open>
  C9. A failure of the construction of the \<open>NetworkInterfaces\<close> object is handled as
  one of the member call is: the call returns -1; for a \<^verbatim>\<open>std::exception\<close> the sink,
  when not null, is invoked once with its message and the caller's context; for any
  other exception, and when the sink is null, no invocation is made. The member is not
  called: the system state is the one the constructor left.
\<close>

theorem EnsureTopMetric_constructor_failure:
  assumes "constructor NI (os w) = (Inl e, s1)"
  shows "fst (WinRoute_EnsureTopMetric NI deviceAlias errorSink errorSinkContext w) = Inr (- 1) \<and>
         sink_log (snd (WinRoute_EnsureTopMetric NI deviceAlias errorSink errorSinkContext w)) =
           (case e of
              std_exception msg \<Rightarrow>
                if errorSink \<noteq> nullptr
                then sink_log w @
                       [\<lparr>callee = errorSink, message = msg, ctx = errorSinkContext\<rparr>]
                else sink_log w
            | non_std_exception \<Rightarrow> sink_log w) \<and>
         os (snd (WinRoute_EnsureTopMetric NI deviceAlias errorSink errorSinkContext w)) = s1"
  using assms
  by (cases e) (auto simp add: WinRoute_EnsureTopMetric_def try_block_def)

theorem EnsureTopMetric_constructor_failure_witness:
  "constructor (failing_constructor (std_exception ''Failed to enumerate network interfaces''))
     (os w0) =
     (Inl (std_exception ''Failed to enumerate network interfaces''), os w0) \<and>
   fst (WinRoute_EnsureTopMetric
          (failing_constructor (std_exception ''Failed to enumerate network interfaces''))
          (Ptr tun0) (Ptr (7 :: nat)) (99 :: nat) w0) = Inr (- 1) \<and>
   sink_log (snd (WinRoute_EnsureTopMetric
          (failing_constructor (std_exception ''Failed to enumerate network interfaces''))
          (Ptr tun0) (Ptr (7 :: nat)) (99 :: nat) w0)) =
     [\<lparr>callee = Ptr 7, message = ''Failed to enumerate network interfaces'', ctx = 99\<rparr>] \<and>
   constructor table_interfaces (os (w0\<lparr>os := []\<rparr>)) = (Inl non_std_exception, []) \<and>
   fst (WinRoute_EnsureTopMetric table_interfaces (Ptr tun0) (Ptr (7 :: nat)) (99 :: nat)
          (w0\<lparr>os := []\<rparr>)) = Inr (- 1) \<and>
   sink_log (snd (WinRoute_EnsureTopMetric table_interfaces (Ptr tun0) (Ptr (7 :: nat)) (99 :: nat)
          (w0\<lparr>os := []\<rparr>))) = []"
proof -
  have c1: "constructor (failing_constructor (std_exception ''Failed to enumerate network interfaces''))
              (os w0) =
            (Inl (std_exception ''Failed to enumerate network interfaces''), os w0)"
    by (simp add: failing_constructor_def)
  have c2: "constructor table_interfaces (os (w0\<lparr>os := []\<rparr>)) = (Inl non_std_exception, [])"
    by (simp add: table_interfaces_def)
  show ?thesis
    using c1 c2
      EnsureTopMetric_constructor_failure [OF c1, of "Ptr tun0" "Ptr 7" 99]
      EnsureTopMetric_constructor_failure [OF c2, of "Ptr tun0" "Ptr 7" 99]
    by (simp add: w0_def)
qed

text \<open>
  C10. The status depends on the collaborator's outcome alone (returned \<open>true\<close>,
  returned \<open>false\<close>, typed failure, untyped failure): two calls with the same outcome
  return the same status, whatever sink and context each was given.
\<close>

theorem EnsureTopMetric_status_by_outcome:
  assumes "outcome_of (collaborator_run NI deviceAlias (os w)) =
           outcome_of (collaborator_run NI' deviceAlias' (os w'))"
  shows "fst (WinRoute_EnsureTopMetric NI deviceAlias errorSink errorSinkContext w) =
         fst (WinRoute_EnsureTopMetric NI' deviceAlias' errorSink' errorSinkContext' w')"
  using assms by (simp add: status_of_outcome)

theorem EnsureTopMetric_status_by_outcome_witness:
  "outcome_of (collaborator_run table_interfaces nullptr (os w0)) =
   outcome_of (collaborator_run (failing_constructor (std_exception ''No adapters''))
                 (Ptr tun0) (os w0)) \<and>
   fst (WinRoute_EnsureTopMetric table_interfaces nullptr (Ptr (7 :: nat)) (99 :: nat) w0) =
   fst (WinRoute_EnsureTopMetric (failing_constructor (std_exception ''No adapters''))
          (Ptr tun0) (nullptr :: nat pointer) (0 :: nat) w0)"
proof -
  have same: "outcome_of (collaborator_run table_interfaces nullptr (os w0)) =
      outcome_of (collaborator_run (failing_constructor (std_exception ''No adapters''))
                    (Ptr tun0) (os w0))"
    by (simp add: table_run_null_alias failing_constructor_run)
  have "fst (WinRoute_EnsureTopMetric table_interfaces nullptr (Ptr (7 :: nat)) (99 :: nat) w0) =
        fst (WinRoute_EnsureTopMetric (failing_constructor (std_exception ''No adapters''))
               (Ptr tun0) (nullptr :: nat pointer) (0 :: nat) w0)"
    by (rule EnsureTopMetric_status_by_outcome [OF same])
  with same show ?thesis
    by simp
qed

end
